theory Spec2Isabelle
  imports Main "HOL-Library.Word"
begin

section \<open>The MMTk collector backend (gc/mmtk.c)\<close>

text \<open>
  The backend is compiled for a 64-bit target: a \<^verbatim>\<open>VALUE\<close> and a \<^verbatim>\<open>size_t\<close> are
  both 8 bytes (the allocator asks for \<^verbatim>\<open>alloc_size + 8\<close> bytes to make room for one
  hidden \<^verbatim>\<open>VALUE\<close> in front of the object). Comparisons on them are unsigned.
\<close>

type_synonym VALUE = "64 word"
type_synonym size_t = "64 word"

text \<open>
  Memory is read and written here only in units of one \<^verbatim>\<open>VALUE\<close>; it is a map from the
  byte address of such a unit to its contents.
\<close>

type_synonym memory = "64 word \<Rightarrow> VALUE"

text \<open>A Ruby hash, as far as the configuration functions look at it: its entries.\<close>

type_synonym rb_hash = "(string \<times> VALUE) list"

text \<open>\<^verbatim>\<open>rb_bug(msg)\<close> prints the diagnostic and aborts the process: it never returns.\<close>

datatype fatal = Bug string

definition rb_bug :: "string \<Rightarrow> fatal + 'a" where
  "rb_bug msg = Inl (Bug msg)"

text \<open>
  The state the functions of the file work on.
  \<^item> \<open>size_pool_sizes\<close>: the file's static (and not \<^verbatim>\<open>const\<close>) array of six entries;
  \<^item> \<open>heap\<close>: the memory the objects live in;
  \<^item> \<open>obj_free_candidates\<close>: the candidate registry that MMTk keeps;
  \<^item> \<open>mutator\<close>: whatever state MMTk's allocator keeps;
  \<^item> \<open>obj_free_calls\<close>: the calls of \<^verbatim>\<open>rb_gc_obj_free\<close> made so far, oldest first
    (a trace, to count the calls).
\<close>

record 'm objspace =
  size_pool_sizes :: "size_t list"
  heap :: memory
  obj_free_candidates :: "VALUE list"
  mutator :: 'm
  obj_free_calls :: "VALUE list"

text \<open>
  Functions the file calls and does not define; they are parameters of the model.
  \<^item> \<open>mmtk_alloc\<close> (MMTk): from the allocator state, the cache pointer, the size, the
    alignment, the offset and the allocation semantics to the address of the block and
    the new allocator state;
  \<^item> \<open>rb_gc_shutdown_call_finalizer_p\<close> (the runtime): a predicate that reads the object;
  \<^item> \<open>rb_gc_obj_free\<close> (the runtime): releases what the object holds.
\<close>

record 'm externals =
  mmtk_alloc :: "'m \<Rightarrow> VALUE \<Rightarrow> size_t \<Rightarrow> size_t \<Rightarrow> size_t \<Rightarrow> size_t \<Rightarrow> VALUE \<times> 'm"
  rb_gc_shutdown_call_finalizer_p :: "memory \<Rightarrow> VALUE \<Rightarrow> bool"
  rb_gc_obj_free :: "memory \<Rightarrow> VALUE \<Rightarrow> memory"

subsection \<open>The size-class table\<close>

text \<open>\<^verbatim>\<open>static size_t size_pool_sizes[6] = { 40, 80, 160, 320, 640, 0 };\<close>\<close>

definition size_pool_sizes_init :: "size_t list" where
  "size_pool_sizes_init = [40, 80, 160, 320, 640, 0]"

definition objspace_init :: "'m \<Rightarrow> 'm objspace" where
  "objspace_init m =
     \<lparr>size_pool_sizes = size_pool_sizes_init, heap = (\<lambda>a. 0), obj_free_candidates = [],
      mutator = m, obj_free_calls = []\<rparr>"

text \<open>\<^verbatim>\<open>rb_gc_impl_size_pool_sizes\<close> returns the address of the array: the caller reads it.\<close>

definition rb_gc_impl_size_pool_sizes :: "'m objspace \<Rightarrow> size_t list" where
  "rb_gc_impl_size_pool_sizes st = size_pool_sizes st"

subsection \<open>Object allocation\<close>

text \<open>The address of \<^verbatim>\<open>((VALUE *)obj)[k]\<close>.\<close>

definition slot_addr :: "VALUE \<Rightarrow> int \<Rightarrow> 64 word" where
  "slot_addr obj k = obj + word_of_int (8 * k)"

definition MMTK_MIN_OBJ_ALIGN :: size_t where
  "MMTK_MIN_OBJ_ALIGN = 8"

definition MMTK_ALLOCATION_SEMANTICS_DEFAULT :: size_t where
  "MMTK_ALLOCATION_SEMANTICS_DEFAULT = 0"

text \<open>
  The loop of \<^verbatim>\<open>rb_gc_impl_new_obj\<close> over the first five entries of the table; its value
  is \<^verbatim>\<open>alloc_size\<close> when the loop is left.
\<close>

function new_obj_size_loop :: "size_t list \<Rightarrow> size_t \<Rightarrow> nat \<Rightarrow> size_t" where
  "new_obj_size_loop tbl alloc_size i =
     (if i < 5 then
        (if alloc_size = tbl ! i then alloc_size
         else if alloc_size < tbl ! i then tbl ! i
         else new_obj_size_loop tbl alloc_size (Suc i))
      else alloc_size)"
  by pat_completeness auto
termination
  by (relation "measure (\<lambda>(tbl, alloc_size, i). 5 - i)") auto

declare new_obj_size_loop.simps [simp del]

text \<open>
  The stores of lines 193 to 198: the slot size in the hidden word in front of the
  object, then the flags, the class and the inline words the slot has room for.
\<close>

definition new_obj_stores ::
  "memory \<Rightarrow> VALUE \<Rightarrow> size_t \<Rightarrow> VALUE \<Rightarrow> VALUE \<Rightarrow> VALUE \<Rightarrow> VALUE \<Rightarrow> VALUE \<Rightarrow> memory" where
  "new_obj_stores h alloc_obj alloc_size flags klass v1 v2 v3 =
     (let h = h(slot_addr alloc_obj (-1) := alloc_size);
          h = h(slot_addr alloc_obj 0 := flags);
          h = h(slot_addr alloc_obj 1 := klass);
          h = (if alloc_size > 16 then h(slot_addr alloc_obj 2 := v1) else h);
          h = (if alloc_size > 24 then h(slot_addr alloc_obj 3 := v2) else h);
          h = (if alloc_size > 32 then h(slot_addr alloc_obj 4 := v3) else h)
      in h)"

text \<open>
  Modelled from the spec: \<^verbatim>\<open>mmtk_add_obj_free_candidate\<close>, a function of the MMTk binding
  and not of this file. The registry is "a process-wide, append-only candidate registry",
  a "flat growable vector appended to at allocation time".
\<close>

definition mmtk_add_obj_free_candidate :: "'m objspace \<Rightarrow> VALUE \<Rightarrow> 'm objspace" where
  "mmtk_add_obj_free_candidate st obj =
     st\<lparr>obj_free_candidates := obj_free_candidates st @ [obj]\<rparr>"

definition rb_gc_impl_new_obj ::
  "'m externals \<Rightarrow> 'm objspace \<Rightarrow> VALUE \<Rightarrow> VALUE \<Rightarrow> VALUE \<Rightarrow> VALUE \<Rightarrow> VALUE \<Rightarrow> VALUE \<Rightarrow> bool \<Rightarrow>
     size_t \<Rightarrow> fatal + (VALUE \<times> 'm objspace)" where
  "rb_gc_impl_new_obj ext st cache_ptr klass flags v1 v2 v3 wb_protected alloc_size =
     (if alloc_size > 640 then rb_bug ''too big''
      else
        let alloc_size = new_obj_size_loop (size_pool_sizes st) alloc_size 0 in
        case mmtk_alloc ext (mutator st) cache_ptr (alloc_size + 8) MMTK_MIN_OBJ_ALIGN 0
               MMTK_ALLOCATION_SEMANTICS_DEFAULT of
          (p, m) \<Rightarrow>
            let alloc_obj = slot_addr p 1;
                h = new_obj_stores (heap st) alloc_obj alloc_size flags klass v1 v2 v3;
                st = st\<lparr>heap := h, mutator := m\<rparr>;
                st = (if rb_gc_shutdown_call_finalizer_p ext h alloc_obj
                      then mmtk_add_obj_free_candidate st alloc_obj else st)
            in Inr (alloc_obj, st))"

definition rb_gc_impl_obj_slot_size :: "'m objspace \<Rightarrow> VALUE \<Rightarrow> size_t" where
  "rb_gc_impl_obj_slot_size st obj = heap st (slot_addr obj (-1))"

text \<open>The loop of \<^verbatim>\<open>rb_gc_impl_size_pool_id_for_size\<close>; \<^verbatim>\<open>rb_bug\<close> follows it.\<close>

function size_pool_id_loop :: "size_t list \<Rightarrow> size_t \<Rightarrow> nat \<Rightarrow> fatal + size_t" where
  "size_pool_id_loop tbl sz i =
     (if i < 5 then
        (if sz = tbl ! i then Inr (of_nat i)
         else if sz < tbl ! i then Inr (of_nat i)
         else size_pool_id_loop tbl sz (Suc i))
      else rb_bug ''size too big'')"
  by pat_completeness auto
termination
  by (relation "measure (\<lambda>(tbl, sz, i). 5 - i)") auto

declare size_pool_id_loop.simps [simp del]

definition rb_gc_impl_size_pool_id_for_size :: "'m objspace \<Rightarrow> size_t \<Rightarrow> fatal + size_t" where
  "rb_gc_impl_size_pool_id_for_size st sz = size_pool_id_loop (size_pool_sizes st) sz 0"

definition rb_gc_impl_size_allocatable_p :: "size_t \<Rightarrow> bool" where
  "rb_gc_impl_size_allocatable_p sz = (sz \<le> 640)"

subsection \<open>Finalizers at shutdown\<close>

text \<open>
  Modelled from the spec: \<^verbatim>\<open>mmtk_get_all_obj_free_candidates\<close> and
  \<^verbatim>\<open>mmtk_free_raw_vec_of_obj_ref\<close>, functions of the MMTk binding and not of this file.
  The drain "retrieves all still-pending records, and for each one still eligible for
  cleanup invokes its cleanup callback exactly once, then clears the registry": the first
  function hands out the pending records, and the second, called on them after the loop,
  leaves the registry empty.
\<close>

definition mmtk_get_all_obj_free_candidates :: "'m objspace \<Rightarrow> VALUE list" where
  "mmtk_get_all_obj_free_candidates st = obj_free_candidates st"

definition mmtk_free_raw_vec_of_obj_ref :: "'m objspace \<Rightarrow> VALUE list \<Rightarrow> 'm objspace" where
  "mmtk_free_raw_vec_of_obj_ref st vec = st\<lparr>obj_free_candidates := []\<rparr>"

text \<open>The call \<^verbatim>\<open>rb_gc_obj_free(objspace_ptr, obj)\<close>, noted in the trace.\<close>

definition call_rb_gc_obj_free :: "'m externals \<Rightarrow> 'm objspace \<Rightarrow> VALUE \<Rightarrow> 'm objspace" where
  "call_rb_gc_obj_free ext st obj =
     st\<lparr>heap := rb_gc_obj_free ext (heap st) obj, obj_free_calls := obj_free_calls st @ [obj]\<rparr>"

text \<open>One turn of the loop of \<^verbatim>\<open>rb_gc_impl_shutdown_call_finalizer\<close>, on one candidate.\<close>

definition shutdown_visit :: "'m externals \<Rightarrow> 'm objspace \<Rightarrow> VALUE \<Rightarrow> 'm objspace" where
  "shutdown_visit ext st obj =
     (if rb_gc_shutdown_call_finalizer_p ext (heap st) obj then call_rb_gc_obj_free ext st obj
      else st)"

function shutdown_loop :: "'m externals \<Rightarrow> VALUE list \<Rightarrow> nat \<Rightarrow> 'm objspace \<Rightarrow> 'm objspace" where
  "shutdown_loop ext ptr i st =
     (if i < length ptr then shutdown_loop ext ptr (Suc i) (shutdown_visit ext st (ptr ! i))
      else st)"
  by pat_completeness auto
termination
  by (relation "measure (\<lambda>(ext, ptr, i, st). length ptr - i)") auto

declare shutdown_loop.simps [simp del]

definition rb_gc_impl_shutdown_call_finalizer :: "'m externals \<Rightarrow> 'm objspace \<Rightarrow> 'm objspace" where
  "rb_gc_impl_shutdown_call_finalizer ext st =
     (let registered_candidates = mmtk_get_all_obj_free_candidates st;
          st = shutdown_loop ext registered_candidates 0 st
      in mmtk_free_raw_vec_of_obj_ref st registered_candidates)"

subsection \<open>Marking, compaction and write barriers\<close>

definition rb_gc_impl_mark :: "'m objspace \<Rightarrow> VALUE \<Rightarrow> fatal + 'm objspace" where
  "rb_gc_impl_mark st obj = rb_bug ''unimplemented''"

definition rb_gc_impl_mark_and_move :: "'m objspace \<Rightarrow> VALUE \<Rightarrow> fatal + 'm objspace" where
  "rb_gc_impl_mark_and_move st ptr = rb_bug ''unimplemented''"

definition rb_gc_impl_mark_and_pin :: "'m objspace \<Rightarrow> VALUE \<Rightarrow> fatal + 'm objspace" where
  "rb_gc_impl_mark_and_pin st obj = rb_bug ''unimplemented''"

definition rb_gc_impl_mark_maybe :: "'m objspace \<Rightarrow> VALUE \<Rightarrow> fatal + 'm objspace" where
  "rb_gc_impl_mark_maybe st obj = rb_bug ''unimplemented''"

definition rb_gc_impl_mark_weak :: "'m objspace \<Rightarrow> VALUE \<Rightarrow> fatal + 'm objspace" where
  "rb_gc_impl_mark_weak st ptr = rb_bug ''unimplemented''"

definition rb_gc_impl_remove_weak :: "'m objspace \<Rightarrow> VALUE \<Rightarrow> VALUE \<Rightarrow> fatal + 'm objspace" where
  "rb_gc_impl_remove_weak st parent_obj ptr = rb_bug ''unimplemented''"

definition rb_gc_impl_objspace_mark :: "'m objspace \<Rightarrow> fatal + 'm objspace" where
  "rb_gc_impl_objspace_mark st = rb_bug ''unimplemented''"

definition rb_gc_impl_object_moved_p :: "'m objspace \<Rightarrow> VALUE \<Rightarrow> fatal + (bool \<times> 'm objspace)" where
  "rb_gc_impl_object_moved_p st obj = rb_bug ''unimplemented''"

definition rb_gc_impl_location :: "'m objspace \<Rightarrow> VALUE \<Rightarrow> fatal + (VALUE \<times> 'm objspace)" where
  "rb_gc_impl_location st v = rb_bug ''unimplemented''"

text \<open>The three write barriers have empty bodies: they return at once.\<close>

definition rb_gc_impl_writebarrier :: "'m objspace \<Rightarrow> VALUE \<Rightarrow> VALUE \<Rightarrow> fatal + 'm objspace" where
  "rb_gc_impl_writebarrier st a b = Inr st"

definition rb_gc_impl_writebarrier_unprotect :: "'m objspace \<Rightarrow> VALUE \<Rightarrow> fatal + 'm objspace" where
  "rb_gc_impl_writebarrier_unprotect st obj = Inr st"

definition rb_gc_impl_writebarrier_remember :: "'m objspace \<Rightarrow> VALUE \<Rightarrow> fatal + 'm objspace" where
  "rb_gc_impl_writebarrier_remember st obj = Inr st"

subsection \<open>Configuration\<close>

text \<open>
  Modelled from the spec: \<^verbatim>\<open>rb_hash_new\<close>, a function of the runtime and not of this file:
  a new hash, with no entry ("an opaque key-value map").
\<close>

definition rb_hash_new :: rb_hash where
  "rb_hash_new = []"

definition rb_gc_impl_config_get :: "'m objspace \<Rightarrow> fatal + (rb_hash \<times> 'm objspace)" where
  "rb_gc_impl_config_get st = Inr (rb_hash_new, st)"

definition rb_gc_impl_config_set :: "'m objspace \<Rightarrow> rb_hash \<Rightarrow> fatal + (rb_hash \<times> 'm objspace)" where
  "rb_gc_impl_config_set st hash = Inr (hash, st)"

subsection \<open>Sequences of calls\<close>

text \<open>
  The calls the runtime can make of the functions above, and a run of several of them:
  the run ends at the first call that aborts.
\<close>

datatype call =
    New_obj VALUE VALUE VALUE VALUE VALUE VALUE bool size_t
  | Obj_slot_size VALUE
  | Size_pool_id_for_size size_t
  | Size_allocatable_p size_t
  | Size_pool_sizes
  | Shutdown_call_finalizer
  | Mark VALUE
  | Mark_and_move VALUE
  | Mark_and_pin VALUE
  | Mark_maybe VALUE
  | Mark_weak VALUE
  | Remove_weak VALUE VALUE
  | Objspace_mark
  | Object_moved_p VALUE
  | Location VALUE
  | Writebarrier VALUE VALUE
  | Writebarrier_unprotect VALUE
  | Writebarrier_remember VALUE
  | Config_get
  | Config_set rb_hash

definition state_of :: "fatal + ('a \<times> 'm objspace) \<Rightarrow> fatal + 'm objspace" where
  "state_of r = (case r of Inl e \<Rightarrow> Inl e | Inr (v, st) \<Rightarrow> Inr st)"

fun exec :: "'m externals \<Rightarrow> 'm objspace \<Rightarrow> call \<Rightarrow> fatal + 'm objspace" where
  "exec ext st (New_obj cache_ptr klass flags v1 v2 v3 wb_protected alloc_size) =
     state_of (rb_gc_impl_new_obj ext st cache_ptr klass flags v1 v2 v3 wb_protected alloc_size)"
| "exec ext st (Obj_slot_size obj) = Inr st"
| "exec ext st (Size_pool_id_for_size sz) =
     (case rb_gc_impl_size_pool_id_for_size st sz of Inl e \<Rightarrow> Inl e | Inr i \<Rightarrow> Inr st)"
| "exec ext st (Size_allocatable_p sz) = Inr st"
| "exec ext st Size_pool_sizes = Inr st"
| "exec ext st Shutdown_call_finalizer = Inr (rb_gc_impl_shutdown_call_finalizer ext st)"
| "exec ext st (Mark obj) = rb_gc_impl_mark st obj"
| "exec ext st (Mark_and_move ptr) = rb_gc_impl_mark_and_move st ptr"
| "exec ext st (Mark_and_pin obj) = rb_gc_impl_mark_and_pin st obj"
| "exec ext st (Mark_maybe obj) = rb_gc_impl_mark_maybe st obj"
| "exec ext st (Mark_weak ptr) = rb_gc_impl_mark_weak st ptr"
| "exec ext st (Remove_weak parent_obj ptr) = rb_gc_impl_remove_weak st parent_obj ptr"
| "exec ext st Objspace_mark = rb_gc_impl_objspace_mark st"
| "exec ext st (Object_moved_p obj) = state_of (rb_gc_impl_object_moved_p st obj)"
| "exec ext st (Location v) = state_of (rb_gc_impl_location st v)"
| "exec ext st (Writebarrier a b) = rb_gc_impl_writebarrier st a b"
| "exec ext st (Writebarrier_unprotect obj) = rb_gc_impl_writebarrier_unprotect st obj"
| "exec ext st (Writebarrier_remember obj) = rb_gc_impl_writebarrier_remember st obj"
| "exec ext st Config_get = state_of (rb_gc_impl_config_get st)"
| "exec ext st (Config_set hash) = state_of (rb_gc_impl_config_set st hash)"

fun run :: "'m externals \<Rightarrow> 'm objspace \<Rightarrow> call list \<Rightarrow> fatal + 'm objspace" where
  "run ext st [] = Inr st"
| "run ext st (c # cs) = (case exec ext st c of Inl e \<Rightarrow> Inl e | Inr st' \<Rightarrow> run ext st' cs)"

subsection \<open>An environment to run the functions in\<close>

text \<open>
  For evaluating the functions at concrete inputs: an allocator that hands out
  consecutive blocks (its state is the next free address), a finalizer predicate that
  holds of the objects whose flags word is 12 (a bare \<^verbatim>\<open>T_DATA\<close>), and an
  \<^verbatim>\<open>rb_gc_obj_free\<close> that clears the flags word of the object.
\<close>

definition example_externals :: "(64 word) externals" where
  "example_externals =
     \<lparr>mmtk_alloc = (\<lambda>m cache_ptr sz align offset semantics. (m, m + sz)),
      rb_gc_shutdown_call_finalizer_p = (\<lambda>h obj. h (slot_addr obj 0) = 12),
      rb_gc_obj_free = (\<lambda>h obj. h(slot_addr obj 0 := 0))\<rparr>"

definition example_objspace :: "(64 word) objspace" where
  "example_objspace = objspace_init 4096"

text \<open>
  A state at shutdown: three objects, of which the first and the third need their
  finalizer, and a registry that names the first one twice.
\<close>

definition drained_example :: "(64 word) objspace" where
  "drained_example =
     example_objspace\<lparr>heap := (\<lambda>a. 0)(4104 := 12, 4152 := 5, 4200 := 12),
                      obj_free_candidates := [4104, 4152, 4104, 4200]\<rparr>"

section \<open>Properties\<close>

text \<open>
  C2. For every requested allocation size above 640, \<^verbatim>\<open>rb_gc_impl_new_obj\<close> aborts
  through \<^verbatim>\<open>rb_bug("too big")\<close>: its result is the abort, whatever the state, the
  allocator and the other arguments are, and so it is never an object reference.
\<close>

theorem new_obj_too_big_fatal:
  "640 < s \<Longrightarrow>
     rb_gc_impl_new_obj ext st cache_ptr klass flags v1 v2 v3 wb_protected s = Inl (Bug ''too big'')
     \<and> (\<nexists>obj st'. rb_gc_impl_new_obj ext st cache_ptr klass flags v1 v2 v3 wb_protected s
           = Inr (obj, st'))"
  by (simp add: rb_gc_impl_new_obj_def rb_bug_def)

theorem new_obj_too_big_fatal_witness:
  "(640 :: size_t) < 641 \<and>
   rb_gc_impl_new_obj example_externals example_objspace 0 7 12 1 2 3 False 641 = Inl (Bug ''too big'')"
  using new_obj_too_big_fatal [of 641 example_externals example_objspace 0 7 12 1 2 3 False]
  by simp

subsection \<open>The loops, unrolled over the table of six entries\<close>

lemma new_obj_size_loop_unroll:
  "new_obj_size_loop [a0, a1, a2, a3, a4, a5] s 0 =
     (if s = a0 then s else if s < a0 then a0
      else if s = a1 then s else if s < a1 then a1
      else if s = a2 then s else if s < a2 then a2
      else if s = a3 then s else if s < a3 then a3
      else if s = a4 then s else if s < a4 then a4
      else s)"
  by (simp add: new_obj_size_loop.simps [of _ _ 0] new_obj_size_loop.simps [of _ _ "Suc 0"]
      new_obj_size_loop.simps [of _ _ "Suc (Suc 0)"] new_obj_size_loop.simps [of _ _ "Suc (Suc (Suc 0))"]
      new_obj_size_loop.simps [of _ _ "Suc (Suc (Suc (Suc 0)))"]
      new_obj_size_loop.simps [of _ _ "Suc (Suc (Suc (Suc (Suc 0))))"])

lemma new_obj_size_class:
  assumes "s \<le> 640"
  shows "new_obj_size_loop size_pool_sizes_init s 0 =
     (if s \<le> 40 then 40 else if s \<le> 80 then 80 else if s \<le> 160 then 160
      else if s \<le> 320 then 320 else 640)"
  using assms unfolding size_pool_sizes_init_def new_obj_size_loop_unroll
  by (auto simp: not_less)

lemma size_pool_id_loop_unroll:
  "size_pool_id_loop [a0, a1, a2, a3, a4, a5] s 0 =
     (if s = a0 then Inr 0 else if s < a0 then Inr 0
      else if s = a1 then Inr 1 else if s < a1 then Inr 1
      else if s = a2 then Inr 2 else if s < a2 then Inr 2
      else if s = a3 then Inr 3 else if s < a3 then Inr 3
      else if s = a4 then Inr 4 else if s < a4 then Inr 4
      else rb_bug ''size too big'')"
  by (simp add: size_pool_id_loop.simps [of _ _ 0] size_pool_id_loop.simps [of _ _ "Suc 0"]
      size_pool_id_loop.simps [of _ _ "Suc (Suc 0)"] size_pool_id_loop.simps [of _ _ "Suc (Suc (Suc 0))"]
      size_pool_id_loop.simps [of _ _ "Suc (Suc (Suc (Suc 0)))"]
      size_pool_id_loop.simps [of _ _ "Suc (Suc (Suc (Suc (Suc 0))))"])

lemma size_pool_id_class:
  "size_pool_id_loop size_pool_sizes_init s 0 =
     (if s \<le> 40 then Inr 0 else if s \<le> 80 then Inr 1 else if s \<le> 160 then Inr 2
      else if s \<le> 320 then Inr 3 else if s \<le> 640 then Inr 4 else rb_bug ''size too big'')"
  unfolding size_pool_sizes_init_def size_pool_id_loop_unroll
  by (auto simp: not_less)

subsection \<open>The stores of an allocation\<close>

lemma slot_addr_back: "slot_addr (slot_addr p 1) (-1) = p"
  by (simp add: slot_addr_def)

lemma slot_addr_distinct:
  "slot_addr obj (-1) \<noteq> slot_addr obj 0" "slot_addr obj (-1) \<noteq> slot_addr obj 1"
  "slot_addr obj (-1) \<noteq> slot_addr obj 2" "slot_addr obj (-1) \<noteq> slot_addr obj 3"
  "slot_addr obj (-1) \<noteq> slot_addr obj 4"
  "slot_addr obj 0 \<noteq> slot_addr obj 1" "slot_addr obj 0 \<noteq> slot_addr obj 2"
  "slot_addr obj 0 \<noteq> slot_addr obj 3" "slot_addr obj 0 \<noteq> slot_addr obj 4"
  "slot_addr obj 1 \<noteq> slot_addr obj 2" "slot_addr obj 1 \<noteq> slot_addr obj 3"
  "slot_addr obj 1 \<noteq> slot_addr obj 4"
  "slot_addr obj 2 \<noteq> slot_addr obj 3" "slot_addr obj 2 \<noteq> slot_addr obj 4"
  "slot_addr obj 3 \<noteq> slot_addr obj 4"
  by (simp_all add: slot_addr_def)

lemma new_obj_stores_slot_size:
  "new_obj_stores h obj c flags klass v1 v2 v3 (slot_addr obj (-1)) = c"
  by (simp add: new_obj_stores_def Let_def slot_addr_distinct)

lemma new_obj_stores_header:
  "new_obj_stores h obj c flags klass v1 v2 v3 (slot_addr obj 0) = flags"
  "new_obj_stores h obj c flags klass v1 v2 v3 (slot_addr obj 1) = klass"
  by (simp_all add: new_obj_stores_def Let_def slot_addr_distinct slot_addr_distinct [symmetric])

lemma new_obj_stores_inline:
  "16 < c \<Longrightarrow> new_obj_stores h obj c flags klass v1 v2 v3 (slot_addr obj 2) = v1"
  "24 < c \<Longrightarrow> new_obj_stores h obj c flags klass v1 v2 v3 (slot_addr obj 3) = v2"
  "32 < c \<Longrightarrow> new_obj_stores h obj c flags klass v1 v2 v3 (slot_addr obj 4) = v3"
  by (simp_all add: new_obj_stores_def Let_def slot_addr_distinct slot_addr_distinct [symmetric])

text \<open>What a call that gets past the size check returns.\<close>

lemma new_obj_returns:
  fixes st :: "'m objspace"
  assumes "s \<le> 640"
    and "c = new_obj_size_loop (size_pool_sizes st) s 0"
    and "r = mmtk_alloc ext (mutator st) cache_ptr (c + 8) MMTK_MIN_OBJ_ALIGN 0
                  MMTK_ALLOCATION_SEMANTICS_DEFAULT"
    and "obj = slot_addr (fst r) 1"
    and "h = new_obj_stores (heap st) obj c flags klass v1 v2 v3"
  shows "rb_gc_impl_new_obj ext st cache_ptr klass flags v1 v2 v3 wb_protected s =
           Inr (obj, st\<lparr>heap := h, mutator := snd r,
                  obj_free_candidates := obj_free_candidates st @
                    (if rb_gc_shutdown_call_finalizer_p ext h obj then [obj] else [])\<rparr>)"
proof -
  from assms(1) have "\<not> 640 < s"
    by (simp add: not_less)
  with assms(2-) show ?thesis
    by (simp add: rb_gc_impl_new_obj_def Let_def mmtk_add_obj_free_candidate_def
        split: prod.splits)
qed

subsection \<open>Size classes of allocated objects\<close>

text \<open>
  C1. With the table as the file initialises it, every request of at most 640 bytes
  returns an object; the size committed for it is the smallest of 40, 80, 160, 320 and 640
  that is at least the request; the block asked of the allocator is that size plus the
  hidden word; and \<^verbatim>\<open>rb_gc_impl_obj_slot_size\<close> of the returned reference is exactly
  that size.
\<close>

theorem new_obj_commits_size_class:
  fixes st :: "'m objspace"
  assumes "size_pool_sizes st = size_pool_sizes_init" and "s \<le> 640"
  shows "\<exists>obj st' c.
           rb_gc_impl_new_obj ext st cache_ptr klass flags v1 v2 v3 wb_protected s = Inr (obj, st')
           \<and> c \<in> {40, 80, 160, 320, 640} \<and> s \<le> c
           \<and> (\<forall>c' \<in> {40, 80, 160, 320, 640}. s \<le> c' \<longrightarrow> c \<le> c')
           \<and> obj = slot_addr (fst (mmtk_alloc ext (mutator st) cache_ptr (c + 8)
                       MMTK_MIN_OBJ_ALIGN 0 MMTK_ALLOCATION_SEMANTICS_DEFAULT)) 1
           \<and> rb_gc_impl_obj_slot_size st' obj = c"
proof -
  define c where "c = new_obj_size_loop (size_pool_sizes st) s 0"
  define r where "r = mmtk_alloc ext (mutator st) cache_ptr (c + 8) MMTK_MIN_OBJ_ALIGN 0
                  MMTK_ALLOCATION_SEMANTICS_DEFAULT"
  define obj where "obj = slot_addr (fst r) 1"
  define h where "h = new_obj_stores (heap st) obj c flags klass v1 v2 v3"
  define st' where "st' = st\<lparr>heap := h, mutator := snd r,
                  obj_free_candidates := obj_free_candidates st @
                    (if rb_gc_shutdown_call_finalizer_p ext h obj then [obj] else [])\<rparr>"
  have ret: "rb_gc_impl_new_obj ext st cache_ptr klass flags v1 v2 v3 wb_protected s = Inr (obj, st')"
    unfolding st'_def by (rule new_obj_returns [OF assms(2) c_def r_def obj_def h_def])
  have c_eq: "c = (if s \<le> 40 then 40 else if s \<le> 80 then 80 else if s \<le> 160 then 160
      else if s \<le> 320 then 320 else 640)"
    unfolding c_def assms(1) by (rule new_obj_size_class [OF assms(2)])
  have mem: "c \<in> {40, 80, 160, 320, 640}"
    by (simp add: c_eq)
  have ge: "s \<le> c"
    using assms(2) by (simp add: c_eq)
  have least: "\<forall>c' \<in> {40, 80, 160, 320, 640}. s \<le> c' \<longrightarrow> c \<le> c'"
    by (simp add: c_eq)
  have slot: "rb_gc_impl_obj_slot_size st' obj = c"
    by (simp add: rb_gc_impl_obj_slot_size_def st'_def h_def new_obj_stores_slot_size)
  from ret mem ge least slot show ?thesis
    unfolding r_def obj_def by blast
qed


lemma example_objspace_table: "size_pool_sizes example_objspace = size_pool_sizes_init"
  by (simp add: example_objspace_def objspace_init_def)

theorem new_obj_commits_size_class_witness:
  "size_pool_sizes example_objspace = size_pool_sizes_init \<and> (24 :: size_t) \<le> 640 \<and>
   (\<exists>st'. rb_gc_impl_new_obj example_externals example_objspace 0 7 12 1 2 3 False 24
             = Inr (4104, st')
          \<and> rb_gc_impl_obj_slot_size st' 4104 = 40)"
proof -
  have le: "(24 :: size_t) \<le> 640"
    by simp
  from new_obj_commits_size_class [OF example_objspace_table le, of example_externals 0 7 12 1 2 3 False]
  obtain obj st' c where
    ret: "rb_gc_impl_new_obj example_externals example_objspace 0 7 12 1 2 3 False 24 = Inr (obj, st')"
    and mem: "c \<in> {40, 80, 160, 320, 640}"
    and least: "\<forall>c' \<in> {40, 80, 160, 320, 640}. (24 :: size_t) \<le> c' \<longrightarrow> c \<le> c'"
    and obj: "obj = slot_addr (fst (mmtk_alloc example_externals (mutator example_objspace) 0 (c + 8)
                       MMTK_MIN_OBJ_ALIGN 0 MMTK_ALLOCATION_SEMANTICS_DEFAULT)) 1"
    and slot: "rb_gc_impl_obj_slot_size st' obj = c"
    by blast
  from least have "c \<le> 40"
    by simp
  with mem have c: "c = 40"
    by auto
  have "obj = 4104"
    unfolding obj c by (simp add: example_externals_def example_objspace_def objspace_init_def slot_addr_def)
  with ret slot c le example_objspace_table show ?thesis
    by simp
qed

text \<open>
  C9. Every allocation that returns has a slot of at least 40 bytes, so each of the three
  guards on the inline words holds, and the heap it leaves holds the flags, the class and
  all of \<open>v1\<close>, \<open>v2\<close>, \<open>v3\<close> at the words 0 to 4 of the object, whatever size was asked.
\<close>

theorem new_obj_writes_whole_header:
  fixes st :: "'m objspace"
  assumes "size_pool_sizes st = size_pool_sizes_init"
    and "rb_gc_impl_new_obj ext st cache_ptr klass flags v1 v2 v3 wb_protected s = Inr (obj, st')"
  shows "40 \<le> rb_gc_impl_obj_slot_size st' obj
         \<and> 16 < rb_gc_impl_obj_slot_size st' obj
         \<and> 24 < rb_gc_impl_obj_slot_size st' obj
         \<and> 32 < rb_gc_impl_obj_slot_size st' obj
         \<and> heap st' (slot_addr obj 0) = flags
         \<and> heap st' (slot_addr obj 1) = klass
         \<and> heap st' (slot_addr obj 2) = v1
         \<and> heap st' (slot_addr obj 3) = v2
         \<and> heap st' (slot_addr obj 4) = v3"
proof -
  from assms(2) have le: "s \<le> 640"
    by (simp add: rb_gc_impl_new_obj_def rb_bug_def not_less split: if_splits)
  define c where "c = new_obj_size_loop (size_pool_sizes st) s 0"
  have c_eq: "c = (if s \<le> 40 then 40 else if s \<le> 80 then 80 else if s \<le> 160 then 160
      else if s \<le> 320 then 320 else 640)"
    unfolding c_def assms(1) by (rule new_obj_size_class [OF le])
  have c40: "40 \<le> c"
    by (simp add: c_eq)
  then have guards: "16 < c" "24 < c" "32 < c"
    by (simp_all add: c_eq)
  from new_obj_returns [OF le c_def refl refl refl, where ext = ext and cache_ptr = cache_ptr
      and klass = klass and flags = flags and ?v1.0 = v1 and ?v2.0 = v2 and ?v3.0 = v3
      and wb_protected = wb_protected] assms(2)
  have st': "heap st' = new_obj_stores (heap st) obj c flags klass v1 v2 v3"
    by auto
  show ?thesis
    using c40 guards
    by (simp add: rb_gc_impl_obj_slot_size_def st' new_obj_stores_slot_size
        new_obj_stores_header new_obj_stores_inline)
qed

theorem new_obj_writes_whole_header_witness:
  "size_pool_sizes example_objspace = size_pool_sizes_init \<and>
   (\<exists>st'. rb_gc_impl_new_obj example_externals example_objspace 0 7 12 1 2 3 False 1
             = Inr (4104, st')
          \<and> rb_gc_impl_obj_slot_size st' 4104 = 40
          \<and> heap st' 4104 = 12 \<and> heap st' 4112 = 7
          \<and> heap st' 4120 = 1 \<and> heap st' 4128 = 2 \<and> heap st' 4136 = 3)"
proof -
  have le: "(1 :: size_t) \<le> 640"
    by simp
  obtain st' where ret:
    "rb_gc_impl_new_obj example_externals example_objspace 0 7 12 1 2 3 False 1 = Inr (4104, st')"
    and slot: "rb_gc_impl_obj_slot_size st' 4104 = 40"
    using new_obj_returns [OF le refl refl refl refl, where st = example_objspace
        and ext = example_externals and cache_ptr = 0 and klass = 7 and flags = 12
        and ?v1.0 = 1 and ?v2.0 = 2 and ?v3.0 = 3 and wb_protected = False]
    by (simp add: new_obj_size_class example_externals_def example_objspace_def
        objspace_init_def slot_addr_def rb_gc_impl_obj_slot_size_def new_obj_stores_def)
  from new_obj_writes_whole_header [OF example_objspace_table ret] ret slot example_objspace_table
  show ?thesis
    by (simp add: slot_addr_def)
qed

subsection \<open>Slot sizes and size-pool indices\<close>

lemma new_obj_keeps_table:
  assumes "rb_gc_impl_new_obj ext st cache_ptr klass flags v1 v2 v3 wb_protected s = Inr (obj, st')"
  shows "size_pool_sizes st' = size_pool_sizes st"
  using assms
  by (auto simp: rb_gc_impl_new_obj_def rb_bug_def Let_def mmtk_add_obj_free_candidate_def
      split: if_splits prod.splits)

lemma new_obj_slot_size:
  assumes "rb_gc_impl_new_obj ext st cache_ptr klass flags v1 v2 v3 wb_protected s = Inr (obj, st')"
  shows "rb_gc_impl_obj_slot_size st' obj = new_obj_size_loop (size_pool_sizes st) s 0"
  using assms
  by (auto simp: rb_gc_impl_new_obj_def rb_bug_def Let_def mmtk_add_obj_free_candidate_def
      rb_gc_impl_obj_slot_size_def new_obj_stores_slot_size
      split: if_splits prod.splits)

lemma new_obj_Inr_le:
  assumes "rb_gc_impl_new_obj ext st cache_ptr klass flags v1 v2 v3 wb_protected s = Inr (obj, st')"
  shows "s \<le> 640"
  using assms by (simp add: rb_gc_impl_new_obj_def rb_bug_def not_less split: if_splits)

lemma size_pool_id_of_class:
  assumes "c \<in> {40, 80, 160, 320, 640}"
  shows "\<exists>i < 5. size_pool_id_loop size_pool_sizes_init c 0 = Inr (of_nat i)
                   \<and> size_pool_sizes_init ! i = c"
proof -
  have "size_pool_id_loop size_pool_sizes_init 40 0 = Inr (of_nat 0) \<and> size_pool_sizes_init ! 0 = 40"
    and "size_pool_id_loop size_pool_sizes_init 80 0 = Inr (of_nat 1) \<and> size_pool_sizes_init ! 1 = 80"
    and "size_pool_id_loop size_pool_sizes_init 160 0 = Inr (of_nat 2) \<and> size_pool_sizes_init ! 2 = 160"
    and "size_pool_id_loop size_pool_sizes_init 320 0 = Inr (of_nat 3) \<and> size_pool_sizes_init ! 3 = 320"
    and "size_pool_id_loop size_pool_sizes_init 640 0 = Inr (of_nat 4) \<and> size_pool_sizes_init ! 4 = 640"
    by (simp_all add: size_pool_id_class) (simp_all add: size_pool_sizes_init_def)
  with assms show ?thesis
    by (elim insertE emptyE) (simp_all only:, (rule exI [of _ 0] exI [of _ 1] exI [of _ 2] exI [of _ 3] exI [of _ 4], simp)+)
qed

text \<open>
  C6. With the table as the file initialises it: for an object that an allocation
  returned, \<^verbatim>\<open>rb_gc_impl_size_pool_id_for_size\<close> of its slot size is that of the size the
  allocation committed (the value of \<^verbatim>\<open>alloc_size\<close> after the loop), and it is the index
  of the table entry equal to the slot size; and on every size above 640
  \<^verbatim>\<open>rb_gc_impl_size_pool_id_for_size\<close> aborts through \<^verbatim>\<open>rb_bug("size too big")\<close>.
\<close>

theorem slot_size_pool_id_round_trip:
  fixes st :: "'m objspace"
  assumes "size_pool_sizes st = size_pool_sizes_init"
  shows "(\<forall>obj st'.
            rb_gc_impl_new_obj ext st cache_ptr klass flags v1 v2 v3 wb_protected s = Inr (obj, st') \<longrightarrow>
              rb_gc_impl_size_pool_id_for_size st' (rb_gc_impl_obj_slot_size st' obj) =
                rb_gc_impl_size_pool_id_for_size st' (new_obj_size_loop (size_pool_sizes st) s 0)
              \<and> (\<exists>i < 5. rb_gc_impl_size_pool_id_for_size st' (rb_gc_impl_obj_slot_size st' obj)
                            = Inr (of_nat i)
                        \<and> size_pool_sizes st' ! i = rb_gc_impl_obj_slot_size st' obj))
         \<and> (\<forall>sz. 640 < sz \<longrightarrow>
               rb_gc_impl_size_pool_id_for_size st sz = Inl (Bug ''size too big''))"
proof (intro conjI allI impI)
  fix obj st'
  assume ret: "rb_gc_impl_new_obj ext st cache_ptr klass flags v1 v2 v3 wb_protected s = Inr (obj, st')"
  have tbl: "size_pool_sizes st' = size_pool_sizes_init"
    using new_obj_keeps_table [OF ret] assms by simp
  have slot: "rb_gc_impl_obj_slot_size st' obj = new_obj_size_loop (size_pool_sizes st) s 0"
    by (rule new_obj_slot_size [OF ret])
  show "rb_gc_impl_size_pool_id_for_size st' (rb_gc_impl_obj_slot_size st' obj) =
          rb_gc_impl_size_pool_id_for_size st' (new_obj_size_loop (size_pool_sizes st) s 0)"
    by (simp only: slot)
  have c: "rb_gc_impl_obj_slot_size st' obj =
      (if s \<le> 40 then 40 else if s \<le> 80 then 80 else if s \<le> 160 then 160
       else if s \<le> 320 then 320 else 640)"
    unfolding slot assms by (rule new_obj_size_class [OF new_obj_Inr_le [OF ret]])
  show "\<exists>i < 5. rb_gc_impl_size_pool_id_for_size st' (rb_gc_impl_obj_slot_size st' obj) = Inr (of_nat i)
          \<and> size_pool_sizes st' ! i = rb_gc_impl_obj_slot_size st' obj"
    using size_pool_id_of_class [of "rb_gc_impl_obj_slot_size st' obj"]
    by (simp add: c tbl rb_gc_impl_size_pool_id_for_size_def)
next
  fix sz :: size_t
  assume "640 < sz"
  then have "\<not> sz \<le> 40" "\<not> sz \<le> 80" "\<not> sz \<le> 160" "\<not> sz \<le> 320" "\<not> sz \<le> 640"
    by (auto simp: not_le elim: less_trans [rotated])
  then show "rb_gc_impl_size_pool_id_for_size st sz = Inl (Bug ''size too big'')"
    by (simp add: rb_gc_impl_size_pool_id_for_size_def assms size_pool_id_class rb_bug_def)
qed


theorem slot_size_pool_id_round_trip_witness:
  "size_pool_sizes example_objspace = size_pool_sizes_init \<and>
   (\<exists>st'. rb_gc_impl_new_obj example_externals example_objspace 0 7 12 1 2 3 False 100
             = Inr (4104, st')
          \<and> rb_gc_impl_size_pool_id_for_size st' (rb_gc_impl_obj_slot_size st' 4104) = Inr 2
          \<and> rb_gc_impl_size_pool_id_for_size st' 160 = Inr 2) \<and>
   rb_gc_impl_size_pool_id_for_size example_objspace 641 = Inl (Bug ''size too big'')"
proof -
  have le: "(100 :: size_t) \<le> 640"
    by simp
  obtain st' where ret:
    "rb_gc_impl_new_obj example_externals example_objspace 0 7 12 1 2 3 False 100 = Inr (4104, st')"
    using new_obj_returns [OF le refl refl refl refl, where st = example_objspace
        and ext = example_externals and cache_ptr = 0 and klass = 7 and flags = 12
        and ?v1.0 = 1 and ?v2.0 = 2 and ?v3.0 = 3 and wb_protected = False]
    by (simp add: new_obj_size_class example_externals_def example_objspace_def
        objspace_init_def slot_addr_def)
  have tbl: "size_pool_sizes st' = size_pool_sizes_init"
    using new_obj_keeps_table [OF ret] example_objspace_table by simp
  have c: "new_obj_size_loop (size_pool_sizes example_objspace) 100 0 = 160"
    by (simp add: example_objspace_table new_obj_size_class)
  have id: "rb_gc_impl_size_pool_id_for_size st' 160 = Inr 2"
    by (simp add: rb_gc_impl_size_pool_id_for_size_def tbl size_pool_id_class)
  from slot_size_pool_id_round_trip [OF example_objspace_table, where ext = example_externals
      and cache_ptr = 0 and klass = 7 and flags = 12 and ?v1.0 = 1 and ?v2.0 = 2 and ?v3.0 = 3
      and wb_protected = False and s = 100]
  have "rb_gc_impl_size_pool_id_for_size st' (rb_gc_impl_obj_slot_size st' 4104) =
          rb_gc_impl_size_pool_id_for_size st' (new_obj_size_loop (size_pool_sizes example_objspace) 100 0)"
    and "rb_gc_impl_size_pool_id_for_size example_objspace 641 = Inl (Bug ''size too big'')"
    using ret by simp_all
  with ret c id example_objspace_table show ?thesis
    by simp
qed

lemma size_le_640:
  fixes s :: size_t
  shows "s \<le> 40 \<Longrightarrow> s \<le> 640" "s \<le> 80 \<Longrightarrow> s \<le> 640" "s \<le> 160 \<Longrightarrow> s \<le> 640"
    "s \<le> 320 \<Longrightarrow> s \<le> 640"
  by (erule order_trans, simp)+

lemma size_pool_id_returns_iff:
  "(\<exists>i. size_pool_id_loop size_pool_sizes_init s 0 = Inr i) = (s \<le> 640)"
  "(size_pool_id_loop size_pool_sizes_init s 0 = Inl (Bug ''size too big'')) = (\<not> s \<le> 640)"
  by (auto simp: size_pool_id_class rb_bug_def dest: size_le_640)

text \<open>
  C10. \<^verbatim>\<open>rb_gc_impl_size_allocatable_p\<close> holds of exactly the sizes up to 640, and with the
  table as the file initialises it these are exactly the sizes at which
  \<^verbatim>\<open>rb_gc_impl_new_obj\<close> returns an object (does not abort with "too big") and at which
  \<^verbatim>\<open>rb_gc_impl_size_pool_id_for_size\<close> returns an index (does not abort with
  "size too big").
\<close>

theorem size_allocatable_excludes_fatal:
  fixes st :: "'m objspace"
  assumes "size_pool_sizes st = size_pool_sizes_init"
  shows "rb_gc_impl_size_allocatable_p s = (s \<le> 640)
     \<and> rb_gc_impl_size_allocatable_p s =
         (\<exists>obj st'. rb_gc_impl_new_obj ext st cache_ptr klass flags v1 v2 v3 wb_protected s
                      = Inr (obj, st'))
     \<and> rb_gc_impl_size_allocatable_p s =
         (rb_gc_impl_new_obj ext st cache_ptr klass flags v1 v2 v3 wb_protected s
            \<noteq> Inl (Bug ''too big''))
     \<and> rb_gc_impl_size_allocatable_p s = (\<exists>i. rb_gc_impl_size_pool_id_for_size st s = Inr i)
     \<and> rb_gc_impl_size_allocatable_p s =
         (rb_gc_impl_size_pool_id_for_size st s \<noteq> Inl (Bug ''size too big''))"
proof -
  have new: "(\<exists>obj st'. rb_gc_impl_new_obj ext st cache_ptr klass flags v1 v2 v3 wb_protected s
                      = Inr (obj, st')) = (s \<le> 640)"
    using new_obj_returns [OF _ refl refl refl refl, where s = s and st = st and ext = ext
        and cache_ptr = cache_ptr and klass = klass and flags = flags and ?v1.0 = v1
        and ?v2.0 = v2 and ?v3.0 = v3 and wb_protected = wb_protected]
      new_obj_Inr_le [where s = s and st = st and ext = ext
        and cache_ptr = cache_ptr and klass = klass and flags = flags and ?v1.0 = v1
        and ?v2.0 = v2 and ?v3.0 = v3 and wb_protected = wb_protected]
    by blast
  have bug: "(rb_gc_impl_new_obj ext st cache_ptr klass flags v1 v2 v3 wb_protected s
            \<noteq> Inl (Bug ''too big'')) = (s \<le> 640)"
    by (auto simp: rb_gc_impl_new_obj_def rb_bug_def not_less Let_def split: prod.splits)
  show ?thesis
    unfolding new bug
    by (simp add: rb_gc_impl_size_allocatable_p_def rb_gc_impl_size_pool_id_for_size_def assms
        size_pool_id_returns_iff)
qed

theorem size_allocatable_excludes_fatal_witness:
  "size_pool_sizes example_objspace = size_pool_sizes_init
   \<and> rb_gc_impl_size_allocatable_p 640
   \<and> (\<exists>obj st'. rb_gc_impl_new_obj example_externals example_objspace 0 7 12 1 2 3 False 640
                  = Inr (obj, st'))
   \<and> (\<exists>i. rb_gc_impl_size_pool_id_for_size example_objspace 640 = Inr i)
   \<and> \<not> rb_gc_impl_size_allocatable_p 641
   \<and> rb_gc_impl_new_obj example_externals example_objspace 0 7 12 1 2 3 False 641
       = Inl (Bug ''too big'')
   \<and> rb_gc_impl_size_pool_id_for_size example_objspace 641 = Inl (Bug ''size too big'')"
  using size_allocatable_excludes_fatal [OF example_objspace_table, where s = 640
      and ext = example_externals and cache_ptr = 0 and klass = 7 and flags = 12
      and ?v1.0 = 1 and ?v2.0 = 2 and ?v3.0 = 3 and wb_protected = False]
    size_allocatable_excludes_fatal [OF example_objspace_table, where s = 641
      and ext = example_externals and cache_ptr = 0 and klass = 7 and flags = 12
      and ?v1.0 = 1 and ?v2.0 = 2 and ?v3.0 = 3 and wb_protected = False]
  by (simp add: example_objspace_table rb_gc_impl_size_allocatable_p_def)

subsection \<open>The drain at shutdown\<close>

lemma shutdown_loop_foldl:
  "shutdown_loop ext ptr i st = foldl (shutdown_visit ext) st (drop i ptr)"
proof (induction ext ptr i st rule: shutdown_loop.induct)
  case (1 ext ptr i st)
  show ?case
  proof (cases "i < length ptr")
    case True
    then have "drop i ptr = ptr ! i # drop (Suc i) ptr"
      by (simp add: Cons_nth_drop_Suc)
    with 1 True show ?thesis
      by (subst shutdown_loop.simps) simp
  next
    case False
    then show ?thesis
      by (subst shutdown_loop.simps) simp
  qed
qed

lemma shutdown_visit_calls:
  "obj_free_calls (shutdown_visit ext st obj) =
     obj_free_calls st @ (if rb_gc_shutdown_call_finalizer_p ext (heap st) obj then [obj] else [])"
  by (simp add: shutdown_visit_def call_rb_gc_obj_free_def)

lemma shutdown_visit_frame:
  "size_pool_sizes (shutdown_visit ext st obj) = size_pool_sizes st"
  "obj_free_candidates (shutdown_visit ext st obj) = obj_free_candidates st"
  "mutator (shutdown_visit ext st obj) = mutator st"
  by (simp_all add: shutdown_visit_def call_rb_gc_obj_free_def)

lemma foldl_shutdown_visit_frame:
  "size_pool_sizes (foldl (shutdown_visit ext) st xs) = size_pool_sizes st"
  "obj_free_candidates (foldl (shutdown_visit ext) st xs) = obj_free_candidates st"
  "mutator (foldl (shutdown_visit ext) st xs) = mutator st"
  by (induction xs arbitrary: st) (simp_all add: shutdown_visit_frame)

lemma foldl_shutdown_visit_calls:
  "obj_free_calls (foldl (shutdown_visit ext) st xs) =
     obj_free_calls st @
     map (\<lambda>i. xs ! i)
       (filter (\<lambda>i. rb_gc_shutdown_call_finalizer_p ext
                      (heap (foldl (shutdown_visit ext) st (take i xs))) (xs ! i))
          [0..<length xs])"
proof (induction xs rule: rev_induct)
  case Nil
  show ?case by simp
next
  case (snoc x xs)
  let ?f = "shutdown_visit ext"
  let ?P = "\<lambda>ys i. rb_gc_shutdown_call_finalizer_p ext (heap (foldl ?f st (take i ys))) (ys ! i)"
  have old: "map (\<lambda>i. (xs @ [x]) ! i) (filter (?P (xs @ [x])) [0..<length xs])
           = map (\<lambda>i. xs ! i) (filter (?P xs) [0..<length xs])"
  proof -
    have "filter (?P (xs @ [x])) [0..<length xs] = filter (?P xs) [0..<length xs]"
      by (rule filter_cong) (simp_all add: nth_append)
    moreover have "map (\<lambda>i. (xs @ [x]) ! i) (filter (?P xs) [0..<length xs])
                 = map (\<lambda>i. xs ! i) (filter (?P xs) [0..<length xs])"
      by (rule map_cong) (simp_all add: nth_append)
    ultimately show ?thesis
      by (simp only:)
  qed
  have new: "map (\<lambda>i. (xs @ [x]) ! i) (filter (?P (xs @ [x])) [length xs])
           = (if rb_gc_shutdown_call_finalizer_p ext (heap (foldl ?f st xs)) x then [x] else [])"
    by simp
  have "obj_free_calls (foldl ?f st (xs @ [x]))
          = obj_free_calls (foldl ?f st xs)
            @ (if rb_gc_shutdown_call_finalizer_p ext (heap (foldl ?f st xs)) x then [x] else [])"
    by (simp add: shutdown_visit_calls)
  also have "\<dots> = obj_free_calls st
            @ (map (\<lambda>i. (xs @ [x]) ! i) (filter (?P (xs @ [x])) [0..<length xs])
               @ map (\<lambda>i. (xs @ [x]) ! i) (filter (?P (xs @ [x])) [length xs]))"
    by (simp only: snoc.IH old new append_assoc)
  also have "map (\<lambda>i. (xs @ [x]) ! i) (filter (?P (xs @ [x])) [0..<length xs])
               @ map (\<lambda>i. (xs @ [x]) ! i) (filter (?P (xs @ [x])) [length xs])
           = map (\<lambda>i. (xs @ [x]) ! i) (filter (?P (xs @ [x])) [0..<length (xs @ [x])])"
    by (simp only: map_append [symmetric] filter_append [symmetric] length_append_singleton upt_Suc_append [OF le0])
  finally show ?case .
qed

text \<open>The state in which the loop reaches the candidate at position \<open>i\<close>.\<close>

lemma shutdown_loop_prefix:
  "shutdown_loop ext (take i ptr) 0 st = foldl (shutdown_visit ext) st (take i ptr)"
  by (simp add: shutdown_loop_foldl)

text \<open>
  C3. The drain takes the candidates the registry holds; the calls of \<^verbatim>\<open>rb_gc_obj_free\<close>
  it makes are, in the order of the vector, the candidates at the positions where
  \<^verbatim>\<open>rb_gc_shutdown_call_finalizer_p\<close> held in the state in which the loop reached the
  position (the state after the loop has gone through the positions before it): one call
  for each such position and no other call. After the drain the registry is empty, and a
  second drain changes nothing: it makes no call.
\<close>

theorem shutdown_call_finalizer_drains_once:
  fixes st :: "'m objspace"
  shows
    "obj_free_calls (rb_gc_impl_shutdown_call_finalizer ext st) =
       obj_free_calls st @
       map (\<lambda>i. obj_free_candidates st ! i)
         (filter (\<lambda>i. rb_gc_shutdown_call_finalizer_p ext
                        (heap (shutdown_loop ext (take i (obj_free_candidates st)) 0 st))
                        (obj_free_candidates st ! i))
            [0..<length (obj_free_candidates st)])
     \<and> obj_free_candidates (rb_gc_impl_shutdown_call_finalizer ext st) = []
     \<and> rb_gc_impl_shutdown_call_finalizer ext (rb_gc_impl_shutdown_call_finalizer ext st)
         = rb_gc_impl_shutdown_call_finalizer ext st"
proof (intro conjI)
  show "obj_free_calls (rb_gc_impl_shutdown_call_finalizer ext st) =
       obj_free_calls st @
       map (\<lambda>i. obj_free_candidates st ! i)
         (filter (\<lambda>i. rb_gc_shutdown_call_finalizer_p ext
                        (heap (shutdown_loop ext (take i (obj_free_candidates st)) 0 st))
                        (obj_free_candidates st ! i))
            [0..<length (obj_free_candidates st)])"
    unfolding shutdown_loop_prefix
    by (simp add: rb_gc_impl_shutdown_call_finalizer_def mmtk_get_all_obj_free_candidates_def
        mmtk_free_raw_vec_of_obj_ref_def Let_def shutdown_loop_foldl foldl_shutdown_visit_calls)
  show empty: "obj_free_candidates (rb_gc_impl_shutdown_call_finalizer ext st) = []"
    by (simp add: rb_gc_impl_shutdown_call_finalizer_def mmtk_free_raw_vec_of_obj_ref_def Let_def)
  show "rb_gc_impl_shutdown_call_finalizer ext (rb_gc_impl_shutdown_call_finalizer ext st)
         = rb_gc_impl_shutdown_call_finalizer ext st"
    by (simp add: rb_gc_impl_shutdown_call_finalizer_def mmtk_get_all_obj_free_candidates_def
        mmtk_free_raw_vec_of_obj_ref_def Let_def shutdown_loop_foldl)
qed


theorem shutdown_call_finalizer_drains_once_witness:
  "obj_free_calls (rb_gc_impl_shutdown_call_finalizer example_externals drained_example)
     = [4104, 4200]
   \<and> obj_free_candidates (rb_gc_impl_shutdown_call_finalizer example_externals drained_example) = []
   \<and> obj_free_calls (rb_gc_impl_shutdown_call_finalizer example_externals
        (rb_gc_impl_shutdown_call_finalizer example_externals drained_example)) = [4104, 4200]"
  using shutdown_call_finalizer_drains_once [of example_externals drained_example]
  by (simp add: drained_example_def example_objspace_def objspace_init_def shutdown_loop_foldl
      example_externals_def shutdown_visit_def call_rb_gc_obj_free_def slot_addr_def upt_rec)

subsection \<open>The table is never written\<close>

lemma shutdown_keeps_table:
  "size_pool_sizes (rb_gc_impl_shutdown_call_finalizer ext st) = size_pool_sizes st"
  by (simp add: rb_gc_impl_shutdown_call_finalizer_def mmtk_free_raw_vec_of_obj_ref_def Let_def
      shutdown_loop_foldl foldl_shutdown_visit_frame)

lemma state_of_Inr: "state_of r = Inr st' \<Longrightarrow> \<exists>v. r = Inr (v, st')"
  by (auto simp: state_of_def split: sum.splits)

lemma exec_keeps_table:
  assumes "exec ext st c = Inr st'"
  shows "size_pool_sizes st' = size_pool_sizes st"
proof (cases c)
  case (New_obj cache_ptr klass flags v1 v2 v3 wb_protected alloc_size)
  with assms show ?thesis
    by (auto dest!: state_of_Inr dest: new_obj_keeps_table)
next
  case (Size_pool_id_for_size sz)
  with assms show ?thesis
    by (simp split: sum.splits)
next
  case Shutdown_call_finalizer
  with assms show ?thesis
    by (auto simp: shutdown_keeps_table)
next
  case (Object_moved_p obj)
  with assms show ?thesis
    by (auto dest!: state_of_Inr simp: rb_gc_impl_object_moved_p_def rb_bug_def)
next
  case (Location v)
  with assms show ?thesis
    by (auto dest!: state_of_Inr simp: rb_gc_impl_location_def rb_bug_def)
next
  case Config_get
  with assms show ?thesis
    by (auto dest!: state_of_Inr simp: rb_gc_impl_config_get_def)
next
  case (Config_set hash)
  with assms show ?thesis
    by (auto dest!: state_of_Inr simp: rb_gc_impl_config_set_def)
qed (use assms in \<open>simp_all add: rb_bug_def rb_gc_impl_mark_def rb_gc_impl_mark_and_move_def
      rb_gc_impl_mark_and_pin_def rb_gc_impl_mark_maybe_def rb_gc_impl_mark_weak_def
      rb_gc_impl_remove_weak_def rb_gc_impl_objspace_mark_def
      rb_gc_impl_writebarrier_def rb_gc_impl_writebarrier_unprotect_def
      rb_gc_impl_writebarrier_remember_def\<close>)

lemma run_keeps_table:
  "run ext st cs = Inr st' \<Longrightarrow> size_pool_sizes st' = size_pool_sizes st"
proof (induction cs arbitrary: st)
  case Nil
  then show ?case by simp
next
  case (Cons c cs)
  then obtain st1 where step: "exec ext st c = Inr st1" and rest: "run ext st1 cs = Inr st'"
    by (auto split: sum.splits)
  from Cons.IH [OF rest] exec_keeps_table [OF step] show ?case
    by simp
qed

lemma ascending_but_sentinel:
  assumes "Suc i < 6"
  shows "([40, 80, 160, 320, 640, 0 :: size_t] ! i < [40, 80, 160, 320, 640, 0] ! Suc i) = (Suc i \<noteq> 5)"
proof -
  from assms consider "i = 0" | "i = 1" | "i = 2" | "i = 3" | "i = 4"
    by linarith
  then show ?thesis
    by cases simp_all
qed


text \<open>
  C7. The table the file starts with, and \<^verbatim>\<open>rb_gc_impl_size_pool_sizes\<close> returns, is
  40, 80, 160, 320, 640, 0; the entries before the last one are strictly increasing, the
  last one is 0, and the only place where an entry is not below the next one is the step
  to the last entry; and whatever functions are run from whatever state, a run that
  returns leaves the table as it was. (The three functions above are the only places of
  the file that name the array.)
\<close>

theorem size_pool_sizes_fixed:
  fixes st :: "'m objspace"
  shows
    "rb_gc_impl_size_pool_sizes (objspace_init m) = [40, 80, 160, 320, 640, 0]
     \<and> sorted_wrt (<) (butlast (rb_gc_impl_size_pool_sizes (objspace_init m)))
     \<and> last (rb_gc_impl_size_pool_sizes (objspace_init m)) = 0
     \<and> (\<forall>i. Suc i < length (rb_gc_impl_size_pool_sizes (objspace_init m)) \<longrightarrow>
            (rb_gc_impl_size_pool_sizes (objspace_init m) ! i
               < rb_gc_impl_size_pool_sizes (objspace_init m) ! Suc i) = (Suc i \<noteq> 5))
     \<and> (\<forall>calls st'. run ext st calls = Inr st' \<longrightarrow>
            rb_gc_impl_size_pool_sizes st' = rb_gc_impl_size_pool_sizes st)"
proof -
  have tbl: "rb_gc_impl_size_pool_sizes (objspace_init m) = [40, 80, 160, 320, 640, 0]"
    by (simp add: rb_gc_impl_size_pool_sizes_def objspace_init_def size_pool_sizes_init_def)
  have sorted: "sorted_wrt (<) (butlast [40, 80, 160, 320, 640, 0 :: size_t])"
    by simp
  have sentinel: "last [40, 80, 160, 320, 640, 0 :: size_t] = 0"
    by simp
  have asc: "\<forall>i. Suc i < length [40, 80, 160, 320, 640, 0 :: size_t] \<longrightarrow>
            ([40, 80, 160, 320, 640, 0 :: size_t] ! i < [40, 80, 160, 320, 640, 0] ! Suc i) = (Suc i \<noteq> 5)"
    using ascending_but_sentinel by simp
  have frame: "\<forall>calls st'. run ext st calls = Inr st' \<longrightarrow>
            rb_gc_impl_size_pool_sizes st' = rb_gc_impl_size_pool_sizes st"
    unfolding rb_gc_impl_size_pool_sizes_def using run_keeps_table by blast
  from sorted sentinel asc frame show ?thesis
    unfolding tbl by (intro conjI refl)
qed


theorem size_pool_sizes_fixed_witness:
  "(\<exists>st'. run example_externals example_objspace
            [New_obj 0 7 12 1 2 3 False 24, Writebarrier 4104 4152, Config_set [(''key'', 1)],
             Size_pool_id_for_size 24, Shutdown_call_finalizer] = Inr st'
         \<and> rb_gc_impl_size_pool_sizes st' = [40, 80, 160, 320, 640, 0])
   \<and> [40, 80, 160, 320, 640, 0 :: size_t] ! 3 < [40, 80, 160, 320, 640, 0] ! 4
   \<and> \<not> [40, 80, 160, 320, 640, 0 :: size_t] ! 4 < [40, 80, 160, 320, 640, 0] ! 5"
proof -
  let ?calls = "[New_obj 0 7 12 1 2 3 False 24, Writebarrier 4104 4152, Config_set [(''key'', 1)],
             Size_pool_id_for_size 24, Shutdown_call_finalizer]"
  have le: "(24 :: size_t) \<le> 640"
    by simp
  obtain obj st1 where new:
    "rb_gc_impl_new_obj example_externals example_objspace 0 7 12 1 2 3 False 24 = Inr (obj, st1)"
    using new_obj_returns [OF le refl refl refl refl, where st = example_objspace
        and ext = example_externals and cache_ptr = 0 and klass = 7 and flags = 12
        and ?v1.0 = 1 and ?v2.0 = 2 and ?v3.0 = 3 and wb_protected = False]
    by blast
  have tbl1: "size_pool_sizes st1 = size_pool_sizes_init"
    using new_obj_keeps_table [OF new] example_objspace_table by simp
  have r: "run example_externals example_objspace ?calls
             = Inr (rb_gc_impl_shutdown_call_finalizer example_externals st1)"
    by (simp add: new state_of_def rb_gc_impl_writebarrier_def rb_gc_impl_config_set_def
        rb_gc_impl_size_pool_id_for_size_def tbl1 size_pool_id_class)
  from size_pool_sizes_fixed [where m = "4096 :: 64 word" and ext = example_externals
      and st = example_objspace]
  have init: "rb_gc_impl_size_pool_sizes example_objspace = [40, 80, 160, 320, 640, 0]"
    and frame: "\<forall>calls st'. run example_externals example_objspace calls = Inr st' \<longrightarrow>
            rb_gc_impl_size_pool_sizes st' = rb_gc_impl_size_pool_sizes example_objspace"
    unfolding example_objspace_def by blast+
  from frame [rule_format, OF r] init
  have "rb_gc_impl_size_pool_sizes (rb_gc_impl_shutdown_call_finalizer example_externals st1)
          = [40, 80, 160, 320, 640, 0]"
    by (simp only:)
  with r have "\<exists>st'. run example_externals example_objspace ?calls = Inr st'
         \<and> rb_gc_impl_size_pool_sizes st' = [40, 80, 160, 320, 640, 0]"
    by blast
  then show ?thesis
    by simp
qed

subsection \<open>Unimplemented operations and write barriers\<close>

text \<open>
  C5, as amended. The marking functions (\<open>mark\<close>, \<open>mark_and_move\<close>, \<open>mark_and_pin\<close>,
  \<open>mark_maybe\<close>, \<open>mark_weak\<close>, \<open>remove_weak\<close>, \<open>objspace_mark\<close>) and the compaction
  functions (\<open>object_moved_p\<close>, \<open>location\<close>) abort through \<^verbatim>\<open>rb_bug("unimplemented")\<close>
  on every input; the three write barriers return on every input and leave the state as
  it was.
\<close>

theorem unimplemented_operations_abort:
  fixes st :: "'m objspace"
  shows
    "rb_gc_impl_mark st obj = Inl (Bug ''unimplemented'')
     \<and> rb_gc_impl_mark_and_move st ptr = Inl (Bug ''unimplemented'')
     \<and> rb_gc_impl_mark_and_pin st obj = Inl (Bug ''unimplemented'')
     \<and> rb_gc_impl_mark_maybe st obj = Inl (Bug ''unimplemented'')
     \<and> rb_gc_impl_mark_weak st ptr = Inl (Bug ''unimplemented'')
     \<and> rb_gc_impl_remove_weak st parent_obj ptr = Inl (Bug ''unimplemented'')
     \<and> rb_gc_impl_objspace_mark st = Inl (Bug ''unimplemented'')
     \<and> rb_gc_impl_object_moved_p st obj = Inl (Bug ''unimplemented'')
     \<and> rb_gc_impl_location st obj = Inl (Bug ''unimplemented'')
     \<and> rb_gc_impl_writebarrier st a b = Inr st
     \<and> rb_gc_impl_writebarrier_unprotect st obj = Inr st
     \<and> rb_gc_impl_writebarrier_remember st obj = Inr st"
  by (simp add: rb_bug_def rb_gc_impl_mark_def rb_gc_impl_mark_and_move_def
      rb_gc_impl_mark_and_pin_def rb_gc_impl_mark_maybe_def rb_gc_impl_mark_weak_def
      rb_gc_impl_remove_weak_def rb_gc_impl_objspace_mark_def rb_gc_impl_object_moved_p_def
      rb_gc_impl_location_def rb_gc_impl_writebarrier_def rb_gc_impl_writebarrier_unprotect_def
      rb_gc_impl_writebarrier_remember_def)

text \<open>
  C5 as stated fails: a call of each of the three write barriers returns, with the
  state it was given, and does not abort.
\<close>

theorem writebarrier_returns_counterexample:
  "rb_gc_impl_writebarrier example_objspace 4104 4152 = Inr example_objspace
   \<and> rb_gc_impl_writebarrier_unprotect example_objspace 4104 = Inr example_objspace
   \<and> rb_gc_impl_writebarrier_remember example_objspace 4104 = Inr example_objspace"
  by (simp add: rb_gc_impl_writebarrier_def rb_gc_impl_writebarrier_unprotect_def
      rb_gc_impl_writebarrier_remember_def)

subsection \<open>Configuration maps\<close>

text \<open>
  C8, as amended. \<^verbatim>\<open>rb_gc_impl_config_set\<close> rejects nothing: for every map it returns
  the map it was given and leaves the state as it was, so no key is applied; and
  \<^verbatim>\<open>rb_gc_impl_config_get\<close> returns the empty map in every state, before and after.
\<close>

theorem config_set_accepts_every_map:
  fixes st :: "'m objspace"
  shows
    "rb_gc_impl_config_set st hash = Inr (hash, st)
     \<and> rb_gc_impl_config_get st = Inr ([], st)"
  by (simp add: rb_gc_impl_config_set_def rb_gc_impl_config_get_def rb_hash_new_def)

text \<open>
  C8 as stated fails: the configuration has no key, and a map with a key is not
  rejected: the call returns it.
\<close>

theorem config_set_unknown_key_counterexample:
  "rb_gc_impl_config_get example_objspace = Inr ([], example_objspace)
   \<and> rb_gc_impl_config_set example_objspace [(''no_such_key'', 1)]
       = Inr ([(''no_such_key'', 1)], example_objspace)"
  by (simp add: rb_gc_impl_config_set_def rb_gc_impl_config_get_def rb_hash_new_def)

subsection \<open>Registration of candidates at allocation\<close>

text \<open>
  C4, as amended. An allocation that returns appends the new object to the registry if
  and only if \<^verbatim>\<open>rb_gc_shutdown_call_finalizer_p\<close> holds of the object in the heap the
  allocation leaves (its header stored), and leaves the registry as it was otherwise; the
  argument \<^verbatim>\<open>wb_protected\<close> plays no part: the call with the other value of it returns
  the same object and state.
\<close>

theorem new_obj_registers_by_finalizer_p:
  fixes st :: "'m objspace"
  assumes "rb_gc_impl_new_obj ext st cache_ptr klass flags v1 v2 v3 wb_protected s = Inr (obj, st')"
  shows "(obj_free_candidates st' = obj_free_candidates st @ [obj])
           = rb_gc_shutdown_call_finalizer_p ext (heap st') obj
       \<and> (obj_free_candidates st' = obj_free_candidates st)
           = (\<not> rb_gc_shutdown_call_finalizer_p ext (heap st') obj)
       \<and> rb_gc_impl_new_obj ext st cache_ptr klass flags v1 v2 v3 (\<not> wb_protected) s
           = Inr (obj, st')"
  using assms
  by (auto simp: rb_gc_impl_new_obj_def rb_bug_def Let_def mmtk_add_obj_free_candidate_def
      split: if_splits prod.splits)

theorem new_obj_registers_by_finalizer_p_witness:
  "\<exists>st'. rb_gc_impl_new_obj example_externals example_objspace 0 7 12 1 2 3 True 24 = Inr (4104, st')
       \<and> obj_free_candidates st' = [4104]
       \<and> rb_gc_shutdown_call_finalizer_p example_externals (heap st') 4104
       \<and> rb_gc_impl_new_obj example_externals example_objspace 0 7 12 1 2 3 False 24 = Inr (4104, st')"
proof -
  have le: "(24 :: size_t) \<le> 640"
    by simp
  obtain st' where ret:
    "rb_gc_impl_new_obj example_externals example_objspace 0 7 12 1 2 3 True 24 = Inr (4104, st')"
    and fin: "rb_gc_shutdown_call_finalizer_p example_externals (heap st') 4104"
    using new_obj_returns [OF le refl refl refl refl, where st = example_objspace
        and ext = example_externals and cache_ptr = 0 and klass = 7 and flags = 12
        and ?v1.0 = 1 and ?v2.0 = 2 and ?v3.0 = 3 and wb_protected = True]
    by (simp add: new_obj_size_class example_externals_def example_objspace_def
        objspace_init_def slot_addr_def new_obj_stores_def)
  from new_obj_registers_by_finalizer_p [OF ret] ret fin show ?thesis
    by (simp add: example_objspace_def objspace_init_def)
qed

text \<open>
  C4 as stated fails when "flagged as requiring cleanup" is read as "not
  write-barrier-protected": an allocation that is not write-barrier-protected registers
  nothing, one that is write-barrier-protected registers the object, and the two values of
  \<^verbatim>\<open>wb_protected\<close> give the same result.
\<close>

theorem new_obj_ignores_wb_protected_counterexample:
  "map_sum id (map_prod id obj_free_candidates)
     (rb_gc_impl_new_obj example_externals example_objspace 0 7 5 1 2 3 False 24) = Inr (4104, [])
   \<and> map_sum id (map_prod id obj_free_candidates)
     (rb_gc_impl_new_obj example_externals example_objspace 0 7 12 1 2 3 True 24) = Inr (4104, [4104])
   \<and> rb_gc_impl_new_obj example_externals example_objspace 0 7 12 1 2 3 True 24
       = rb_gc_impl_new_obj example_externals example_objspace 0 7 12 1 2 3 False 24"
proof -
  have le: "(24 :: size_t) \<le> 640"
    by simp
  show ?thesis
    by (simp add: new_obj_returns [OF le refl refl refl refl] example_objspace_table
        new_obj_size_class)
      (simp add: example_externals_def example_objspace_def
        objspace_init_def slot_addr_def new_obj_stores_def)
qed

subsection \<open>Further properties of the drain\<close>

lemma foldl_shutdown_visit_stable:
  assumes "\<And>h c obj. c \<noteq> obj \<Longrightarrow>
             rb_gc_shutdown_call_finalizer_p ext (rb_gc_obj_free ext h c) obj
               = rb_gc_shutdown_call_finalizer_p ext h obj"
    and "distinct xs"
  shows "obj_free_calls (foldl (shutdown_visit ext) st xs) =
           obj_free_calls st @ filter (rb_gc_shutdown_call_finalizer_p ext (heap st)) xs"
  using assms(2)
proof (induction xs arbitrary: st)
  case Nil
  show ?case by simp
next
  case (Cons x xs)
  have same: "filter (rb_gc_shutdown_call_finalizer_p ext (heap (shutdown_visit ext st x))) xs
            = filter (rb_gc_shutdown_call_finalizer_p ext (heap st)) xs"
  proof (rule filter_cong [OF refl])
    fix y
    assume "y \<in> set xs"
    with Cons.prems have "x \<noteq> y"
      by auto
    then show "rb_gc_shutdown_call_finalizer_p ext (heap (shutdown_visit ext st x)) y
             = rb_gc_shutdown_call_finalizer_p ext (heap st) y"
      by (simp add: shutdown_visit_def call_rb_gc_obj_free_def assms(1))
  qed
  from Cons.prems have "distinct xs"
    by simp
  from Cons.IH [OF this, of "shutdown_visit ext st x"] show ?case
    by (simp add: same shutdown_visit_calls)
qed

text \<open>
  X1. When releasing one object does not change whether another object needs its
  finalizer, and the registry names no object twice, the drain calls \<^verbatim>\<open>rb_gc_obj_free\<close>
  on exactly the candidates that need their finalizer in the heap the drain starts from,
  once each, in the order of the registry.
\<close>

theorem shutdown_call_finalizer_filter:
  fixes st :: "'m objspace"
  assumes "\<And>h c obj. c \<noteq> obj \<Longrightarrow>
             rb_gc_shutdown_call_finalizer_p ext (rb_gc_obj_free ext h c) obj
               = rb_gc_shutdown_call_finalizer_p ext h obj"
    and "distinct (obj_free_candidates st)"
  shows "obj_free_calls (rb_gc_impl_shutdown_call_finalizer ext st) =
           obj_free_calls st
           @ filter (rb_gc_shutdown_call_finalizer_p ext (heap st)) (obj_free_candidates st)"
  by (simp add: rb_gc_impl_shutdown_call_finalizer_def mmtk_get_all_obj_free_candidates_def
      mmtk_free_raw_vec_of_obj_ref_def Let_def shutdown_loop_foldl
      foldl_shutdown_visit_stable [OF assms])

theorem shutdown_call_finalizer_filter_witness:
  "distinct (obj_free_candidates (drained_example\<lparr>obj_free_candidates := [4104, 4152, 4200]\<rparr>))
   \<and> obj_free_calls (rb_gc_impl_shutdown_call_finalizer example_externals
        (drained_example\<lparr>obj_free_candidates := [4104, 4152, 4200]\<rparr>)) = [4104, 4200]"
proof -
  have stable: "rb_gc_shutdown_call_finalizer_p example_externals
                  (rb_gc_obj_free example_externals h c) obj
               = rb_gc_shutdown_call_finalizer_p example_externals h obj"
    if "c \<noteq> obj" for h c obj
    using that by (simp add: example_externals_def slot_addr_def)
  have d: "distinct (obj_free_candidates (drained_example\<lparr>obj_free_candidates := [4104, 4152, 4200]\<rparr>))"
    by simp
  from shutdown_call_finalizer_filter [OF stable d] d show ?thesis
    by (simp add: drained_example_def example_objspace_def objspace_init_def
        example_externals_def slot_addr_def)
qed

text \<open>
  X2. From a state with an empty registry, an allocation of an object that needs its
  finalizer followed by the drain calls \<^verbatim>\<open>rb_gc_obj_free\<close> on that object exactly once,
  and leaves the registry empty.
\<close>

theorem new_obj_then_shutdown_frees_once:
  fixes st :: "'m objspace"
  assumes "obj_free_candidates st = []"
    and "rb_gc_impl_new_obj ext st cache_ptr klass flags v1 v2 v3 wb_protected s = Inr (obj, st')"
    and "rb_gc_shutdown_call_finalizer_p ext (heap st') obj"
  shows "run ext st [New_obj cache_ptr klass flags v1 v2 v3 wb_protected s, Shutdown_call_finalizer]
           = Inr (rb_gc_impl_shutdown_call_finalizer ext st')
       \<and> obj_free_calls (rb_gc_impl_shutdown_call_finalizer ext st') = obj_free_calls st @ [obj]
       \<and> obj_free_candidates (rb_gc_impl_shutdown_call_finalizer ext st') = []"
proof -
  from assms(2) have calls: "obj_free_calls st' = obj_free_calls st"
    and cands: "obj_free_candidates st' =
       obj_free_candidates st @ (if rb_gc_shutdown_call_finalizer_p ext (heap st') obj then [obj] else [])"
    by (auto simp: rb_gc_impl_new_obj_def rb_bug_def Let_def mmtk_add_obj_free_candidate_def
      split: if_splits prod.splits)
  from cands assms(1,3) have reg: "obj_free_candidates st' = [obj]"
    by simp
  show ?thesis
    using assms(2,3)
    by (simp add: state_of_def rb_gc_impl_shutdown_call_finalizer_def
        mmtk_get_all_obj_free_candidates_def mmtk_free_raw_vec_of_obj_ref_def Let_def
        shutdown_loop_foldl reg shutdown_visit_calls calls)
qed

theorem new_obj_then_shutdown_frees_once_witness:
  "obj_free_candidates example_objspace = []
   \<and> (\<exists>st'. rb_gc_impl_new_obj example_externals example_objspace 0 7 12 1 2 3 False 24
               = Inr (4104, st')
            \<and> rb_gc_shutdown_call_finalizer_p example_externals (heap st') 4104
            \<and> obj_free_calls (rb_gc_impl_shutdown_call_finalizer example_externals st') = [4104])"
proof -
  have le: "(24 :: size_t) \<le> 640"
    by simp
  have empty: "obj_free_candidates example_objspace = []"
    by (simp add: example_objspace_def objspace_init_def)
  obtain st' where ret:
    "rb_gc_impl_new_obj example_externals example_objspace 0 7 12 1 2 3 False 24 = Inr (4104, st')"
    and fin: "rb_gc_shutdown_call_finalizer_p example_externals (heap st') 4104"
    using new_obj_returns [OF le refl refl refl refl, where st = example_objspace
        and ext = example_externals and cache_ptr = 0 and klass = 7 and flags = 12
        and ?v1.0 = 1 and ?v2.0 = 2 and ?v3.0 = 3 and wb_protected = False]
    by (simp add: new_obj_size_class example_externals_def example_objspace_def
        objspace_init_def slot_addr_def new_obj_stores_def)
  from new_obj_then_shutdown_frees_once [OF empty ret fin] ret fin empty show ?thesis
    by (simp add: example_objspace_def objspace_init_def)
qed

end
